theory Spec2Isabelle
  imports Main
begin

section \<open>The servertime microservice\<close>

text \<open>
  The program is one Go file, \<^verbatim>\<open>main.go\<close>: \<^verbatim>\<open>currentTime\<close> formats the wall clock with
  the layout \<^verbatim>\<open>time.RFC822Z\<close>, \<^verbatim>\<open>handler\<close> wraps the result in a \<^verbatim>\<open>ServiceResult\<close>,
  marshals it to JSON and writes it to the response, and \<^verbatim>\<open>main\<close> binds the handler to
  the pattern \<^verbatim>\<open>/\<close> and listens. Everything else the program does is done by the Go
  standard library (\<^verbatim>\<open>time\<close>, \<^verbatim>\<open>encoding/json\<close>, \<^verbatim>\<open>net/http\<close>); the library functions the
  program calls are embedded here next to the program's own, each under the name it has
  in Go.
\<close>

subsection \<open>Go integer arithmetic\<close>

text \<open>
  Go's \<^verbatim>\<open>/\<close> and \<^verbatim>\<open>%\<close> on integers truncate toward zero; HOL's \<open>div\<close> and \<open>mod\<close> floor.
  The values handled here (calendar fields, zone offsets in seconds) are far from the
  64-bit range, so the integers are unbounded.
\<close>

definition go_quo :: "int \<Rightarrow> int \<Rightarrow> int" where
  "go_quo a b = sgn a * sgn b * (\<bar>a\<bar> div \<bar>b\<bar>)"

definition go_rem :: "int \<Rightarrow> int \<Rightarrow> int" where
  "go_rem a b = sgn a * (\<bar>a\<bar> mod \<bar>b\<bar>)"

text \<open>Go compares bytes by their codes: \<^verbatim>\<open>lo <= c && c <= hi\<close>.\<close>

definition between :: "char \<Rightarrow> char \<Rightarrow> char \<Rightarrow> bool" where
  "between lo hi c = (of_char lo \<le> (of_char c :: nat) \<and> (of_char c :: nat) \<le> of_char hi)"

subsection \<open>Package time: the value read from the clock\<close>

text \<open>
  A \<^verbatim>\<open>time.Time\<close> is represented by what \<^verbatim>\<open>Format\<close> and \<^verbatim>\<open>Parse\<close> read from and build
  into it: the calendar date of \<^verbatim>\<open>t.Date()\<close>, the clock of \<^verbatim>\<open>t.Clock()\<close>, the nanosecond
  and the offset in seconds east of UTC of \<^verbatim>\<open>t.Zone()\<close>. \<^verbatim>\<open>time.Now()\<close> returns the time
  in the process's local zone, so the offset is part of the reading.
\<close>

record Time =
  Year :: int
  Month :: int
  Day :: int
  Hour :: int
  Minute :: int
  Second :: int
  Nanosecond :: int
  ZoneOffset :: int

definition isLeap :: "int \<Rightarrow> bool" where
  "isLeap y = (y mod 4 = 0 \<and> (y mod 100 \<noteq> 0 \<or> y mod 400 = 0))"

definition daysIn :: "int \<Rightarrow> int \<Rightarrow> int" where
  "daysIn m y =
     (if m = 2 then (if isLeap y then 29 else 28)
      else if m = 4 \<or> m = 6 \<or> m = 9 \<or> m = 11 then 30 else 31)"

text \<open>
  The times the clock can deliver: a date of the calendar, a clock of the day, and a
  zone less than a day from UTC.
\<close>

definition valid_Time :: "Time \<Rightarrow> bool" where
  "valid_Time t =
     (1 \<le> Month t \<and> Month t \<le> 12 \<and> 1 \<le> Day t \<and> Day t \<le> daysIn (Month t) (Year t) \<and>
      0 \<le> Hour t \<and> Hour t < 24 \<and> 0 \<le> Minute t \<and> Minute t < 60 \<and>
      0 \<le> Second t \<and> Second t < 60 \<and> 0 \<le> Nanosecond t \<and> Nanosecond t < 1000000000 \<and>
      \<bar>ZoneOffset t\<bar> < 86400)"

subsection \<open>Package time: Format\<close>

definition digit_char :: "nat \<Rightarrow> char" where
  "digit_char d = char_of (of_char CHR ''0'' + d :: nat)"

fun decimal :: "nat \<Rightarrow> string" where
  "decimal u = (if u < 10 then [digit_char u] else decimal (u div 10) @ [digit_char (u mod 10)])"

declare decimal.simps [simp del]

text \<open>
  \<^verbatim>\<open>appendInt(b, x, width)\<close>: a minus sign for a negative \<^verbatim>\<open>x\<close>, then the decimal digits of
  its magnitude, padded with zeros on the left up to \<^verbatim>\<open>width\<close> digits.
\<close>

definition appendInt :: "string \<Rightarrow> int \<Rightarrow> nat \<Rightarrow> string" where
  "appendInt b x width =
     (let b1 = (if x < 0 then b @ ''-'' else b);
          ds = decimal (nat \<bar>x\<bar>)
      in b1 @ replicate (width - length ds) CHR ''0'' @ ds)"

definition longMonthNames :: "string list" where
  "longMonthNames =
     [''January'', ''February'', ''March'', ''April'', ''May'', ''June'', ''July'',
      ''August'', ''September'', ''October'', ''November'', ''December'']"

text \<open>
  \<^verbatim>\<open>Month.String\<close>: the English name for January to December, and
  \<^verbatim>\<open>%!Month(n)\<close> for any other number.
\<close>

definition Month_String :: "int \<Rightarrow> string" where
  "Month_String m =
     (if 1 \<le> m \<and> m \<le> 12 then longMonthNames ! nat (m - 1)
      else ''%!Month('' @ appendInt [] m 0 @ '')'')"

text \<open>
  The elements of a layout that \<^verbatim>\<open>nextStdChunk\<close> recognises in \<^verbatim>\<open>RFC822Z\<close>:
  \<^verbatim>\<open>02\<close>, \<^verbatim>\<open>Jan\<close>, \<^verbatim>\<open>06\<close>, \<^verbatim>\<open>15\<close>, \<^verbatim>\<open>04\<close> and \<^verbatim>\<open>-0700\<close>.
\<close>

datatype stdChunk = stdZeroDay | stdMonth | stdYear | stdHour | stdZeroMinute | stdNumTZ

text \<open>
  A layout is kept in the form in which \<^verbatim>\<open>Format\<close> and \<^verbatim>\<open>Parse\<close> consume it: the successive
  results of \<^verbatim>\<open>nextStdChunk\<close>, each the literal text before an element and the element.
  \<^verbatim>\<open>RFC822Z\<close> is the constant \<^verbatim>\<open>"02 Jan 06 15:04 -0700"\<close>; no text follows its last element.
\<close>

type_synonym layout = "(string \<times> stdChunk) list"

definition RFC822Z :: layout where
  "RFC822Z =
     [('''', stdZeroDay), ('' '', stdMonth), ('' '', stdYear), ('' '', stdHour),
      ('':'', stdZeroMinute), ('' '', stdNumTZ)]"

text \<open>One element of \<^verbatim>\<open>appendFormat\<close>'s switch.\<close>

fun appendStd :: "Time \<Rightarrow> string \<Rightarrow> stdChunk \<Rightarrow> string" where
  "appendStd t b stdZeroDay = appendInt b (Day t) 2"
| "appendStd t b stdMonth = b @ take 3 (Month_String (Month t))"
| "appendStd t b stdYear =
     (let y = (if Year t < 0 then - Year t else Year t) in appendInt b (go_rem y 100) 2)"
| "appendStd t b stdHour = appendInt b (Hour t) 2"
| "appendStd t b stdZeroMinute = appendInt b (Minute t) 2"
| "appendStd t b stdNumTZ =
     (let zone = go_quo (ZoneOffset t) 60;
          b1 = (if zone < 0 then b @ ''-'' else b @ ''+'');
          zone1 = (if zone < 0 then - zone else zone);
          b2 = appendInt b1 (go_quo zone1 60) 2
      in appendInt b2 (go_rem zone1 60) 2)"

fun appendFormat :: "Time \<Rightarrow> string \<Rightarrow> layout \<Rightarrow> string" where
  "appendFormat t b [] = b"
| "appendFormat t b ((prefix, std) # suffix) = appendFormat t (appendStd t (b @ prefix) std) suffix"

definition Format :: "Time \<Rightarrow> layout \<Rightarrow> string" where
  "Format t layout = appendFormat t [] layout"

subsection \<open>Package time: Parse\<close>

text \<open>
  What \<^verbatim>\<open>TestCurrentTime\<close> of \<^verbatim>\<open>main_test.go\<close> applies to the result of \<^verbatim>\<open>currentTime\<close>:
  \<^verbatim>\<open>time.Parse(time.RFC822Z, result)\<close>. An error of \<^verbatim>\<open>Parse\<close> is one of four kinds.
\<close>

datatype ParseError = errBad | extra_text string | out_of_range string | day_out_of_range

definition isDigit :: "string \<Rightarrow> nat \<Rightarrow> bool" where
  "isDigit s i = (if length s \<le> i then False else between CHR ''0'' CHR ''9'' (s ! i))"

definition digit_val :: "char \<Rightarrow> int" where
  "digit_val c = int (of_char c) - int (of_char CHR ''0'')"

text \<open>
  \<^verbatim>\<open>getnum(s, fixed)\<close>: a number of one or two digits from the front of \<^verbatim>\<open>s\<close>, of two
  digits when \<^verbatim>\<open>fixed\<close>.
\<close>

definition getnum :: "string \<Rightarrow> bool \<Rightarrow> ParseError + (int \<times> string)" where
  "getnum s fixed =
     (if \<not> isDigit s 0 then Inl errBad
      else if \<not> isDigit s 1 then
        (if fixed then Inl errBad else Inr (digit_val (s ! 0), drop 1 s))
      else Inr (digit_val (s ! 0) * 10 + digit_val (s ! 1), drop 2 s))"

definition cutspace :: "string \<Rightarrow> string" where
  "cutspace s = dropWhile (\<lambda>c. c = CHR '' '') s"

text \<open>
  \<^verbatim>\<open>skip(value, prefix)\<close>: the literal text of the layout is removed from the front of the
  value; a run of spaces in the layout stands for any run of spaces in the value.
\<close>

function skip :: "string \<Rightarrow> string \<Rightarrow> ParseError + string" where
  "skip v [] = Inr v"
| "skip v (p # ps) =
     (if p = CHR '' '' then
        (if v \<noteq> [] \<and> hd v \<noteq> CHR '' '' then Inl errBad
         else skip (cutspace v) (cutspace ps))
      else if v = [] \<or> hd v \<noteq> p then Inl errBad
      else skip (tl v) ps)"
  by pat_completeness auto
termination
  by (relation "measure (\<lambda>(v, p). length p)")
     (auto simp: cutspace_def less_Suc_eq_le length_dropWhile_le)

text \<open>
  \<^verbatim>\<open>match(s1, s2)\<close> compares two strings of one length without regard to the case of
  letters: bytes that differ are compared again with the bit \<^verbatim>\<open>'a' - 'A'\<close> set.
\<close>

definition lower_bit :: "char \<Rightarrow> nat" where
  "lower_bit c = (let b = of_char c in if even (b div 32) then b + 32 else b)"

fun match :: "string \<Rightarrow> string \<Rightarrow> bool" where
  "match (c1 # s1) (c2 # s2) =
     (if c1 \<noteq> c2 \<and> (lower_bit c1 \<noteq> lower_bit c2 \<or> lower_bit c1 < of_char CHR ''a''
                     \<or> lower_bit c1 > of_char CHR ''z'')
      then False else match s1 s2)"
| "match s1 s2 = True"

text \<open>
  \<^verbatim>\<open>lookup(tab, val)\<close>: the index of the first entry of \<^verbatim>\<open>tab\<close> that the value starts with,
  and the rest of the value. The index is counted from \<^verbatim>\<open>i\<close>.
\<close>

fun lookup :: "nat \<Rightarrow> string list \<Rightarrow> string \<Rightarrow> ParseError + (int \<times> string)" where
  "lookup i [] val = Inl errBad"
| "lookup i (v # tab) val =
     (if length val \<ge> length v \<and> match (take (length v) val) v
      then Inr (int i, drop (length v) val)
      else lookup (Suc i) tab val)"

definition shortMonthNames :: "string list" where
  "shortMonthNames =
     [''Jan'', ''Feb'', ''Mar'', ''Apr'', ''May'', ''Jun'', ''Jul'', ''Aug'', ''Sep'', ''Oct'',
      ''Nov'', ''Dec'']"

text \<open>
  \<^verbatim>\<open>atoi\<close>: an optional sign and then digits only. (The overflow error of \<^verbatim>\<open>leadingInt\<close>
  needs nineteen digits; \<^verbatim>\<open>Parse\<close> passes two bytes.)
\<close>

fun leadingInt :: "int \<Rightarrow> string \<Rightarrow> int \<times> string" where
  "leadingInt x [] = (x, [])"
| "leadingInt x (c # cs) =
     (if between CHR ''0'' CHR ''9'' c then leadingInt (x * 10 + digit_val c) cs else (x, c # cs))"

definition atoi :: "string \<Rightarrow> ParseError + int" where
  "atoi s =
     (let signed = (s \<noteq> [] \<and> (hd s = CHR ''-'' \<or> hd s = CHR ''+''));
          neg = (signed \<and> hd s = CHR ''-'');
          s1 = (if signed then tl s else s);
          (q, rem) = leadingInt 0 s1
      in if rem \<noteq> [] then Inl errBad else Inr (if neg then - q else q))"

text \<open>The variables of \<^verbatim>\<open>Parse\<close> that the elements of \<^verbatim>\<open>RFC822Z\<close> assign.\<close>

record parsed =
  p_year :: int
  p_month :: int
  p_day :: int
  p_hour :: int
  p_min :: int
  p_zoneOffset :: int

definition parsed_init :: parsed where
  "parsed_init =
     \<lparr>p_year = 0, p_month = - 1, p_day = - 1, p_hour = 0, p_min = 0, p_zoneOffset = - 1\<rparr>"

text \<open>
  One element of the switch in \<^verbatim>\<open>Parse\<close>, with the two checks that follow the switch: a
  value out of range is reported first, then any other error of the element.
\<close>

fun parseStd :: "stdChunk \<Rightarrow> parsed \<Rightarrow> string \<Rightarrow> ParseError + (parsed \<times> string)" where
  "parseStd stdZeroDay st v =
     (case getnum v True of
        Inl e \<Rightarrow> Inl e
      | Inr (d, v1) \<Rightarrow> Inr (st\<lparr>p_day := d\<rparr>, v1))"
| "parseStd stdMonth st v =
     (case lookup 0 shortMonthNames v of
        Inl e \<Rightarrow> Inl e
      | Inr (m, v1) \<Rightarrow> Inr (st\<lparr>p_month := m + 1\<rparr>, v1))"
| "parseStd stdYear st v =
     (if length v < 2 then Inl errBad
      else case atoi (take 2 v) of
        Inl e \<Rightarrow> Inl e
      | Inr y \<Rightarrow> Inr (st\<lparr>p_year := (if y \<ge> 69 then y + 1900 else y + 2000)\<rparr>, drop 2 v))"
| "parseStd stdHour st v =
     (case getnum v False of
        Inl e \<Rightarrow> Inl e
      | Inr (h, v1) \<Rightarrow>
          if h < 0 \<or> 24 \<le> h then Inl (out_of_range ''hour'') else Inr (st\<lparr>p_hour := h\<rparr>, v1))"
| "parseStd stdZeroMinute st v =
     (case getnum v True of
        Inl e \<Rightarrow> Inl e
      | Inr (m, v1) \<Rightarrow>
          if m < 0 \<or> 60 \<le> m then Inl (out_of_range ''minute'') else Inr (st\<lparr>p_min := m\<rparr>, v1))"
| "parseStd stdNumTZ st v =
     (if length v < 5 then Inl errBad
      else
        let sign = v ! 0;
            hr = getnum (take 2 (drop 1 v)) True;
            mm = (case hr of Inl e \<Rightarrow> Inl e | Inr _ \<Rightarrow> getnum (take 2 (drop 3 v)) True);
            h = (case hr of Inl _ \<Rightarrow> 0 | Inr (x, _) \<Rightarrow> x);
            m = (case mm of Inl _ \<Rightarrow> 0 | Inr (x, _) \<Rightarrow> x);
            zoneOffset = (h * 60 + m) * 60
        in if m > 60 then Inl (out_of_range ''time zone offset minute'')
           else if h > 24 then Inl (out_of_range ''time zone offset hour'')
           else if sign \<noteq> CHR ''+'' \<and> sign \<noteq> CHR ''-'' then Inl errBad
           else case mm of
             Inl e \<Rightarrow> Inl e
           | Inr _ \<Rightarrow>
               Inr (st\<lparr>p_zoneOffset := (if sign = CHR ''-'' then - zoneOffset else zoneOffset)\<rparr>,
                    drop 5 v))"

text \<open>
  The loop of \<^verbatim>\<open>Parse\<close> over the layout: skip the literal text, parse the element; at the
  end of the layout nothing of the value may be left.
\<close>

fun parse_loop :: "layout \<Rightarrow> parsed \<Rightarrow> string \<Rightarrow> ParseError + parsed" where
  "parse_loop [] st v = (if v \<noteq> [] then Inl (extra_text v) else Inr st)"
| "parse_loop ((prefix, std) # suffix) st v =
     (case skip v prefix of
        Inl e \<Rightarrow> Inl e
      | Inr v1 \<Rightarrow>
          (case parseStd std st v1 of
             Inl e \<Rightarrow> Inl e
           | Inr (st1, v2) \<Rightarrow> parse_loop suffix st1 v2))"

text \<open>
  \<^verbatim>\<open>Parse(layout, value)\<close>: after the loop, a month or day that the layout did not give
  is the first, the day is checked against the month and the year, and the time is
  built in the zone of the parsed offset, or in UTC without one. Seconds and
  nanoseconds are never assigned by the elements of \<^verbatim>\<open>RFC822Z\<close> and stay zero.
\<close>

definition Parse :: "layout \<Rightarrow> string \<Rightarrow> ParseError + Time" where
  "Parse layout v =
     (case parse_loop layout parsed_init v of
        Inl e \<Rightarrow> Inl e
      | Inr st \<Rightarrow>
          let month = (if p_month st < 0 then 1 else p_month st);
              day = (if p_day st < 0 then 1 else p_day st)
          in if day < 1 \<or> day > daysIn month (p_year st) then Inl day_out_of_range
             else Inr \<lparr>Year = p_year st, Month = month, Day = day, Hour = p_hour st,
                       Minute = p_min st, Second = 0, Nanosecond = 0,
                       ZoneOffset = (if p_zoneOffset st \<noteq> - 1 then p_zoneOffset st else 0)\<rparr>)"

text \<open>
  \<^verbatim>\<open>t.Unix()\<close>: the seconds from 1970-01-01T00:00:00Z to the instant, as \<^verbatim>\<open>time.Date\<close>
  computes them from the calendar fields: the days before the year, before the month
  and before the day, the seconds of the day, less the zone offset.
\<close>

definition daysBefore :: "int list" where
  "daysBefore = [0, 31, 59, 90, 120, 151, 181, 212, 243, 273, 304, 334, 365]"

definition days_before_year :: "int \<Rightarrow> int" where
  "days_before_year y = (let p = y - 1 in 365 * p + p div 4 - p div 100 + p div 400)"

definition Unix :: "Time \<Rightarrow> int" where
  "Unix t =
     (let d = days_before_year (Year t) - days_before_year 1970
              + daysBefore ! nat (Month t - 1)
              + (if isLeap (Year t) \<and> Month t \<ge> 3 then 1 else 0)
              + (Day t - 1)
      in d * 86400 + Hour t * 3600 + Minute t * 60 + Second t - ZoneOffset t)"

subsection \<open>The clock and currentTime\<close>

text \<open>
  The system clock is the sequence of readings it will deliver to the process; the state
  threaded through the program is the number of readings taken so far. \<^verbatim>\<open>time.Now()\<close>
  takes the next reading.
\<close>

type_synonym Clock = "nat \<Rightarrow> Time"

definition Now :: "Clock \<Rightarrow> nat \<Rightarrow> Time \<times> nat" where
  "Now clk n = (clk n, Suc n)"

definition currentTime :: "Clock \<Rightarrow> nat \<Rightarrow> string \<times> nat" where
  "currentTime clk n = (let (t, n1) = Now clk n in (Format t RFC822Z, n1))"

subsection \<open>Package encoding/json: Marshal on a ServiceResult\<close>

record ServiceResult =
  FormattedTime :: string
  Greeting :: string

text \<open>An \<^verbatim>\<open>error\<close> is used by the program only through \<^verbatim>\<open>err.Error()\<close>, its description.\<close>

type_synonym error = string

definition RuneError :: nat where
  "RuneError = 0xFFFD"

text \<open>
  The table \<^verbatim>\<open>first\<close> of package \<^verbatim>\<open>unicode/utf8\<close> for a leading byte from \<^verbatim>\<open>0x80\<close> up: the
  length of the sequence and the range accepted for its second byte, or nothing for a
  byte that cannot start a sequence.
\<close>

definition utf8_first :: "nat \<Rightarrow> (nat \<times> nat \<times> nat) option" where
  "utf8_first s0 =
     (if 0xC2 \<le> s0 \<and> s0 \<le> 0xDF then Some (2, 0x80, 0xBF)
      else if s0 = 0xE0 then Some (3, 0xA0, 0xBF)
      else if s0 = 0xED then Some (3, 0x80, 0x9F)
      else if 0xE1 \<le> s0 \<and> s0 \<le> 0xEF then Some (3, 0x80, 0xBF)
      else if s0 = 0xF0 then Some (4, 0x90, 0xBF)
      else if 0xF1 \<le> s0 \<and> s0 \<le> 0xF3 then Some (4, 0x80, 0xBF)
      else if s0 = 0xF4 then Some (4, 0x80, 0x8F)
      else None)"

definition byte_at :: "string \<Rightarrow> nat \<Rightarrow> nat" where
  "byte_at s i = of_char (s ! i)"

text \<open>\<^verbatim>\<open>utf8.DecodeRuneInString\<close>: the first rune of \<^verbatim>\<open>s\<close> and its width in bytes.\<close>

definition DecodeRuneInString :: "string \<Rightarrow> nat \<times> nat" where
  "DecodeRuneInString s =
     (if length s < 1 then (RuneError, 0)
      else let s0 = byte_at s 0 in
        if s0 < 0x80 then (s0, 1)
        else case utf8_first s0 of
          None \<Rightarrow> (RuneError, 1)
        | Some (sz, lo, hi) \<Rightarrow>
            if length s < sz then (RuneError, 1)
            else let s1 = byte_at s 1 in
              if s1 < lo \<or> hi < s1 then (RuneError, 1)
              else if sz \<le> 2 then ((s0 mod 32) * 64 + s1 mod 64, 2)
              else let s2 = byte_at s 2 in
                if s2 < 0x80 \<or> 0xBF < s2 then (RuneError, 1)
                else if sz \<le> 3 then ((s0 mod 16) * 4096 + (s1 mod 64) * 64 + s2 mod 64, 3)
                else let s3 = byte_at s 3 in
                  if s3 < 0x80 \<or> 0xBF < s3 then (RuneError, 1)
                  else ((s0 mod 8) * 262144 + (s1 mod 64) * 4096 + (s2 mod 64) * 64
                        + s3 mod 64, 4))"

definition hex :: "nat \<Rightarrow> char" where
  "hex n = ''0123456789abcdef'' ! n"

text \<open>
  \<^verbatim>\<open>htmlSafeSet\<close>: the ASCII bytes that \<^verbatim>\<open>Marshal\<close> copies into a JSON string unchanged:
  all from the space up except the double quote, the backslash and the three that
  matter in HTML.
\<close>

definition htmlSafeSet :: "nat \<Rightarrow> bool" where
  "htmlSafeSet b =
     (0x20 \<le> b \<and> b < 0x80 \<and> b \<noteq> 0x22 \<and> b \<noteq> 0x26 \<and> b \<noteq> 0x3C \<and> b \<noteq> 0x3E \<and> b \<noteq> 0x5C)"

text \<open>The escape written for an ASCII byte outside \<^verbatim>\<open>htmlSafeSet\<close>.\<close>

definition escape_byte :: "nat \<Rightarrow> string" where
  "escape_byte b =
     CHR 0x5C #
     (if b = 0x5C \<or> b = 0x22 then [char_of b]
      else if b = 0x08 then ''b''
      else if b = 0x0C then ''f''
      else if b = 0x0A then ''n''
      else if b = 0x0D then ''r''
      else if b = 0x09 then ''t''
      else ''u00'' @ [hex (b div 16), hex (b mod 16)])"

text \<open>
  The loop of the string encoder (\<^verbatim>\<open>appendString\<close> with \<^verbatim>\<open>escapeHTML\<close> set, as \<^verbatim>\<open>Marshal\<close>
  sets it) between the two quotes: safe bytes and well-formed multi-byte runes are
  copied, the other ASCII bytes are escaped, a byte that is not UTF-8 becomes
  the escape of U+FFFD, and the line and paragraph separators are escaped.
\<close>

fun string_body :: "string \<Rightarrow> string" where
  "string_body [] = []"
| "string_body (c # cs) =
     (let b = (of_char c :: nat) in
      if b < 0x80 then
        (if htmlSafeSet b then c # string_body cs else escape_byte b @ string_body cs)
      else
        (let rs = DecodeRuneInString (c # cs); r = fst rs; size = snd rs in
         if r = RuneError \<and> size = 1 then
           CHR 0x5C # ''ufffd'' @ string_body cs
         else if r = 0x2028 \<or> r = 0x2029 then
           CHR 0x5C # ''u202'' @ [hex (r mod 16)] @ string_body (drop (size - 1) cs)
         else c # take (size - 1) cs @ string_body (drop (size - 1) cs)))"

definition appendString :: "string \<Rightarrow> string \<Rightarrow> string" where
  "appendString dst src = dst @ [CHR 0x22] @ string_body src @ [CHR 0x22]"

text \<open>
  \<^verbatim>\<open>json.Marshal\<close> on a \<^verbatim>\<open>ServiceResult\<close>: a struct of two exported string fields without
  tags is encoded as an object with one member per field, named as the field, in the
  order of declaration. No encoder on this path returns an error.
\<close>

definition json_Marshal :: "ServiceResult \<Rightarrow> error + string" where
  \<open>json_Marshal sr =
     Inr (appendString (appendString ''{"FormattedTime":'' (FormattedTime sr) @ '',"Greeting":'')
            (Greeting sr) @ ''}'')\<close>

subsection \<open>Package net/http: the response writer\<close>

text \<open>
  An \<^verbatim>\<open>http.Header\<close> maps a canonical key to its values. A \<^verbatim>\<open>ResponseWriter\<close> is its
  header map, whether the status line and header have been written, the status and the
  header as they were written, the bytes of the body written so far, and the number of
  superfluous \<^verbatim>\<open>WriteHeader\<close> calls the server has logged.
\<close>

type_synonym Header = "string \<rightharpoonup> string list"

record ResponseWriter =
  header :: Header
  wroteHeader :: bool
  status :: nat
  sentHeader :: Header
  body :: string
  superfluous :: nat

text \<open>The writer the server hands to a handler: nothing set, nothing written.\<close>

definition newResponse :: ResponseWriter where
  "newResponse =
     \<lparr>header = Map.empty, wroteHeader = False, status = 0, sentHeader = Map.empty,
      body = [], superfluous = 0\<rparr>"

definition validHeaderFieldByte :: "char \<Rightarrow> bool" where
  \<open>validHeaderFieldByte c =
     (between CHR ''a'' CHR ''z'' c \<or> between CHR ''A'' CHR ''Z'' c \<or> between CHR ''0'' CHR ''9'' c \<or>
      c \<in> set ''!#$%&*+-.^_`|~'' \<or> c = CHR 0x27)\<close>

text \<open>
  The loop of \<^verbatim>\<open>canonicalMIMEHeaderKey\<close>: the first letter and every letter after a dash
  in upper case, the others in lower case.
\<close>

fun canon_loop :: "bool \<Rightarrow> string \<Rightarrow> string" where
  "canon_loop upper [] = []"
| "canon_loop upper (c # cs) =
     (let c1 = (if upper \<and> between CHR ''a'' CHR ''z'' c then char_of (of_char c - (32::nat))
                else if \<not> upper \<and> between CHR ''A'' CHR ''Z'' c then char_of (of_char c + (32::nat))
                else c)
      in c1 # canon_loop (c1 = CHR ''-'') cs)"

text \<open>
  \<^verbatim>\<open>textproto.CanonicalMIMEHeaderKey\<close>: a key with a byte that may not occur in a field
  name, a space among them, is returned as it is.
\<close>

definition CanonicalMIMEHeaderKey :: "string \<Rightarrow> string" where
  "CanonicalMIMEHeaderKey s = (if list_all validHeaderFieldByte s then canon_loop True s else s)"

definition Header_Set :: "Header \<Rightarrow> string \<Rightarrow> string \<Rightarrow> Header" where
  "Header_Set h key v = h(CanonicalMIMEHeaderKey key \<mapsto> [v])"

definition Header_Del :: "Header \<Rightarrow> string \<Rightarrow> Header" where
  "Header_Del h key = h(CanonicalMIMEHeaderKey key := None)"

text \<open>\<^verbatim>\<open>w.Header().Set(key, value)\<close> and \<^verbatim>\<open>w.Header().Del(key)\<close> on the writer's own map.\<close>

definition w_Header_Set :: "ResponseWriter \<Rightarrow> string \<Rightarrow> string \<Rightarrow> ResponseWriter" where
  "w_Header_Set w key v = w\<lparr>header := Header_Set (header w) key v\<rparr>"

definition w_Header_Del :: "ResponseWriter \<Rightarrow> string \<Rightarrow> ResponseWriter" where
  "w_Header_Del w key = w\<lparr>header := Header_Del (header w) key\<rparr>"

text \<open>
  \<^verbatim>\<open>w.WriteHeader(code)\<close>: the first call fixes the status and the header that goes out;
  a later call is logged as superfluous and changes nothing. (The codes the program
  passes are 200 and 500; the panic of \<^verbatim>\<open>checkWriteHeaderCode\<close> for a code outside
  100 to 999 is not on any of its paths.)
\<close>

definition WriteHeader :: "ResponseWriter \<Rightarrow> nat \<Rightarrow> ResponseWriter" where
  "WriteHeader w code =
     (if wroteHeader w then w\<lparr>superfluous := superfluous w + 1\<rparr>
      else w\<lparr>wroteHeader := True, status := code, sentHeader := header w\<rparr>)"

definition StatusOK :: nat where
  "StatusOK = 200"

definition StatusInternalServerError :: nat where
  "StatusInternalServerError = 500"

text \<open>
  \<^verbatim>\<open>w.Write(data)\<close>: if \<^verbatim>\<open>WriteHeader\<close> has not been called yet, it is called with
  \<^verbatim>\<open>StatusOK\<close>, after a \<^verbatim>\<open>Content-Type\<close> has been added from the first 512 bytes of the
  data by \<^verbatim>\<open>DetectContentType\<close> when the header has none; then the data is appended to the
  body. \<^verbatim>\<open>DetectContentType\<close> is a parameter: no path of the program reaches it.
\<close>

definition Write :: "(string \<Rightarrow> string) \<Rightarrow> ResponseWriter \<Rightarrow> string \<Rightarrow> ResponseWriter" where
  "Write DetectContentType w p =
     (let w1 = (if wroteHeader w then w
                else WriteHeader
                       (if header w ''Content-Type'' = None
                        then w_Header_Set w ''Content-Type'' (DetectContentType (take 512 p))
                        else w)
                       StatusOK)
      in w1\<lparr>body := body w1 @ p\<rparr>)"

text \<open>
  \<^verbatim>\<open>http.Error(w, error, code)\<close>: drops \<^verbatim>\<open>Content-Length\<close>, declares the body plain text
  that must not be sniffed, writes the header with \<^verbatim>\<open>code\<close>, and prints the message with
  \<^verbatim>\<open>fmt.Fprintln\<close>, which ends it with a newline.
\<close>

definition http_Error ::
  "(string \<Rightarrow> string) \<Rightarrow> ResponseWriter \<Rightarrow> string \<Rightarrow> nat \<Rightarrow> ResponseWriter" where
  "http_Error DetectContentType w err code =
     (let w1 = w_Header_Del w ''Content-Length'';
          w2 = w_Header_Set w1 ''Content-Type'' ''text/plain; charset=utf-8'';
          w3 = w_Header_Set w2 ''X-Content-Type-Options'' ''nosniff'';
          w4 = WriteHeader w3 code
      in Write DetectContentType w4 (err @ [CHR 0x0A]))"

subsection \<open>The request handler and main\<close>

text \<open>The parts of an inbound \<^verbatim>\<open>http.Request\<close>.\<close>

record Request =
  Method :: string
  URL_Path :: string
  Req_Header :: Header
  Req_Body :: string

text \<open>
  \<^verbatim>\<open>handler\<close> of \<^verbatim>\<open>main.go\<close>, with the marshaller it calls taken as a parameter, so that the
  branch for a failed serialization can be exercised: one reading of the clock through
  \<^verbatim>\<open>currentTime\<close>, the record, the serialization, and then either \<^verbatim>\<open>http.Error\<close> and
  the return, or the content type and the bytes.
\<close>

definition handler_with ::
  "(ServiceResult \<Rightarrow> error + string) \<Rightarrow> (string \<Rightarrow> string) \<Rightarrow> Clock \<Rightarrow>
   ResponseWriter \<Rightarrow> Request \<Rightarrow> nat \<Rightarrow> ResponseWriter \<times> nat" where
  "handler_with marshal DetectContentType clk w r n =
     (let (t, n1) = currentTime clk n;
          sr = \<lparr>FormattedTime = t, Greeting = ''Hi there''\<rparr>
      in case marshal sr of
           Inl err \<Rightarrow> (http_Error DetectContentType w err StatusInternalServerError, n1)
         | Inr js \<Rightarrow>
             (Write DetectContentType (w_Header_Set w ''Content-Type'' ''application/json'') js, n1))"

text \<open>\<^verbatim>\<open>handler\<close> as the program has it: the marshaller is \<^verbatim>\<open>json.Marshal\<close>.\<close>

definition handler ::
  "(string \<Rightarrow> string) \<Rightarrow> Clock \<Rightarrow> ResponseWriter \<Rightarrow> Request \<Rightarrow> nat \<Rightarrow> ResponseWriter \<times> nat" where
  "handler = handler_with json_Marshal"

text \<open>
  \<^verbatim>\<open>main\<close>: the patterns registered on the default mux, all of them for \<^verbatim>\<open>handler\<close>, and the
  address given to \<^verbatim>\<open>ListenAndServe\<close>. \<^verbatim>\<open>main_first\<close> is \<^verbatim>\<open>main\<close> of the earlier variant of
  the program that the repository also keeps.
\<close>

record Server =
  patterns :: "string list"
  Addr :: string

definition main :: Server where
  "main = \<lparr>patterns = [''/''], Addr = '':80''\<rparr>"

definition main_first :: Server where
  "main_first = \<lparr>patterns = [''/''], Addr = '':8080''\<rparr>"

text \<open>
  The port of a listen address \<^verbatim>\<open>host:port\<close> with a numeric port: the decimal number after
  the last colon.
\<close>

fun dtoi :: "nat \<Rightarrow> string \<Rightarrow> nat option" where
  "dtoi acc [] = Some acc"
| "dtoi acc (c # cs) =
     (if between CHR ''0'' CHR ''9'' c
      then dtoi (acc * 10 + (of_char c - of_char CHR ''0'')) cs else None)"

fun after_last_colon :: "string \<Rightarrow> string option" where
  "after_last_colon [] = None"
| "after_last_colon (c # cs) =
     (case after_last_colon cs of
        Some p \<Rightarrow> Some p
      | None \<Rightarrow> if c = CHR '':'' then Some cs else None)"

definition listen_port :: "string \<Rightarrow> nat option" where
  "listen_port addr =
     (case after_last_colon addr of
        None \<Rightarrow> None
      | Some p \<Rightarrow> if p = [] then None else dtoi 0 p)"

subsection \<open>Concrete inputs\<close>

text \<open>A clock that delivers the same reading every time.\<close>

definition stopped_clock :: "Time \<Rightarrow> Clock" where
  "stopped_clock t n = t"

text \<open>The wall-clock time 2016-09-23T11:39:00+01:00.\<close>

definition scenario_time :: Time where
  "scenario_time =
     \<lparr>Year = 2016, Month = 9, Day = 23, Hour = 11, Minute = 39, Second = 0, Nanosecond = 0,
      ZoneOffset = 3600\<rparr>"

definition get_root :: Request where
  "get_root = \<lparr>Method = ''GET'', URL_Path = ''/'', Req_Header = Map.empty, Req_Body = []\<rparr>"

definition post_other :: Request where
  "post_other =
     \<lparr>Method = ''POST'', URL_Path = ''/other'',
      Req_Header = [''Accept'' \<mapsto> [''text/html'']], Req_Body = ''payload''\<rparr>"

section \<open>Properties\<close>

subsection \<open>The two paths of the handler\<close>

lemma canonical_Content_Type: "CanonicalMIMEHeaderKey ''Content-Type'' = ''Content-Type''"
  by code_simp

lemma canonical_Content_Length: "CanonicalMIMEHeaderKey ''Content-Length'' = ''Content-Length''"
  by code_simp

lemma canonical_X_Content_Type_Options:
  "CanonicalMIMEHeaderKey ''X-Content-Type-Options'' = ''X-Content-Type-Options''"
  by code_simp

lemma currentTime_eq: "currentTime clk n = (Format (clk n) RFC822Z, Suc n)"
  by (simp add: currentTime_def Now_def)

text \<open>
  When the marshaller returns bytes, the handler sets the content type, and the first
  write sends the header with status 200 and then the bytes.
\<close>

lemma handler_with_Inr:
  assumes "marshal \<lparr>FormattedTime = Format (clk n) RFC822Z, Greeting = ''Hi there''\<rparr> = Inr js"
  shows "handler_with marshal D clk newResponse r n =
           (\<lparr>header = [''Content-Type'' \<mapsto> [''application/json'']], wroteHeader = True,
             status = 200, sentHeader = [''Content-Type'' \<mapsto> [''application/json'']],
             body = js, superfluous = 0\<rparr>, Suc n)"
  using assms
  by (simp add: handler_with_def currentTime_eq Write_def WriteHeader_def w_Header_Set_def
      Header_Set_def canonical_Content_Type newResponse_def StatusOK_def)

text \<open>
  When the marshaller returns an error, the handler leaves through \<^verbatim>\<open>http.Error\<close>: status
  500, a plain-text content type, and the description with a newline as the body.
\<close>

lemma handler_with_Inl:
  assumes "marshal \<lparr>FormattedTime = Format (clk n) RFC822Z, Greeting = ''Hi there''\<rparr> = Inl e"
  shows "handler_with marshal D clk newResponse r n =
           (\<lparr>header = [''Content-Type'' \<mapsto> [''text/plain; charset=utf-8''],
                        ''X-Content-Type-Options'' \<mapsto> [''nosniff'']],
             wroteHeader = True, status = 500,
             sentHeader = [''Content-Type'' \<mapsto> [''text/plain; charset=utf-8''],
                           ''X-Content-Type-Options'' \<mapsto> [''nosniff'']],
             body = e @ [CHR 0x0A], superfluous = 0\<rparr>, Suc n)"
  using assms
  by (simp add: handler_with_def currentTime_eq http_Error_def Write_def WriteHeader_def
      w_Header_Set_def w_Header_Del_def Header_Set_def Header_Del_def canonical_Content_Type
      canonical_Content_Length canonical_X_Content_Type_Options newResponse_def
      StatusInternalServerError_def Let_def)

subsection \<open>The scenario of 23 September 2016\<close>

lemma Format_scenario_time: "Format scenario_time RFC822Z = ''23 Sep 16 11:39 +0100''"
  by code_simp

lemma json_Marshal_scenario:
  \<open>json_Marshal \<lparr>FormattedTime = ''23 Sep 16 11:39 +0100'', Greeting = ''Hi there''\<rparr> =
     Inr ''{"FormattedTime":"23 Sep 16 11:39 +0100","Greeting":"Hi there"}''\<close>
  by code_simp

text \<open>
  C2. A request handled when the clock reads 2016-09-23T11:39:00+01:00 is answered with
  status 200 and exactly the bytes
  \<^verbatim>\<open>{"FormattedTime":"23 Sep 16 11:39 +0100","Greeting":"Hi there"}\<close>, the keys in this order,
  whatever the request.
\<close>

theorem scenario_response:
  \<open>body (fst (handler D (stopped_clock scenario_time) newResponse r n)) =
     ''{"FormattedTime":"23 Sep 16 11:39 +0100","Greeting":"Hi there"}'' \<and>
   status (fst (handler D (stopped_clock scenario_time) newResponse r n)) = 200\<close>
proof -
  have "json_Marshal \<lparr>FormattedTime = Format (stopped_clock scenario_time n) RFC822Z,
                       Greeting = ''Hi there''\<rparr> =
          Inr ''{\"FormattedTime\":\"23 Sep 16 11:39 +0100\",\"Greeting\":\"Hi there\"}''"
    by (simp only: stopped_clock_def Format_scenario_time json_Marshal_scenario)
  then show ?thesis
    unfolding handler_def by (simp only: handler_with_Inr fst_conv ResponseWriter.simps simp_thms)
qed

subsection \<open>The request is not read\<close>

text \<open>
  C8. The response does not depend on the request: two requests handled at the same
  reading of the clock, on the same writer, get the same response, whatever their
  method, path, header and body. The handler checks neither method nor path.
\<close>

theorem handler_ignores_request:
  "handler D clk w r1 n = handler D clk w r2 n"
  by (simp add: handler_def handler_with_def)

subsection \<open>The listening port\<close>

text \<open>
  C9. \<^verbatim>\<open>main\<close> listens on the fixed address \<^verbatim>\<open>:80\<close>, port 80; the earlier variant of the
  program listened on \<^verbatim>\<open>:8080\<close>, port 8080.
\<close>

theorem main_listens_on_80:
  "Addr main = '':80'' \<and> listen_port (Addr main) = Some 80 \<and>
   listen_port (Addr main_first) = Some 8080 \<and> listen_port (Addr main) \<noteq> Some 8080"
  by (simp add: main_def main_first_def listen_port_def between_def)

end
